theory Spec2Isabelle
  imports Complex_Main "HOL-Library.Word"
begin

section \<open>The pinhole camera of \<^verbatim>\<open>vi_utils/cam_min.h\<close>\<close>

subsection \<open>Values of type \<^verbatim>\<open>double\<close>\<close>

text \<open>
  A \<^verbatim>\<open>double\<close> is a NaN, one of the two infinities, or a finite number. The
  comparisons below are the IEEE 754 ones, which are exact: every comparison with a NaN
  is false, and the infinities lie below and above every finite number. The finite
  numbers are embedded into the reals, and the arithmetic on them is the exact one
  (rounding and overflow are left out, and the two zeros are one value); the special
  values follow the IEEE 754 rules.
\<close>

datatype double = NaN | MInf | Finite real | PInf

fun dlt :: "double \<Rightarrow> double \<Rightarrow> bool" where
  "dlt NaN b = False"
| "dlt a NaN = False"
| "dlt a MInf = False"
| "dlt PInf b = False"
| "dlt MInf b = True"
| "dlt (Finite a) PInf = True"
| "dlt (Finite a) (Finite b) = (a < b)"

fun dle :: "double \<Rightarrow> double \<Rightarrow> bool" where
  "dle NaN b = False"
| "dle a NaN = False"
| "dle MInf b = True"
| "dle a PInf = True"
| "dle a MInf = False"
| "dle PInf b = False"
| "dle (Finite a) (Finite b) = (a \<le> b)"

definition dgt :: "double \<Rightarrow> double \<Rightarrow> bool" where
  "dgt a b = dlt b a"

definition dge :: "double \<Rightarrow> double \<Rightarrow> bool" where
  "dge a b = dle b a"

fun dneg :: "double \<Rightarrow> double" where
  "dneg NaN = NaN"
| "dneg MInf = PInf"
| "dneg PInf = MInf"
| "dneg (Finite a) = Finite (- a)"

fun dadd :: "double \<Rightarrow> double \<Rightarrow> double" where
  "dadd NaN b = NaN"
| "dadd a NaN = NaN"
| "dadd (Finite a) (Finite b) = Finite (a + b)"
| "dadd PInf MInf = NaN"
| "dadd MInf PInf = NaN"
| "dadd PInf b = PInf"
| "dadd MInf b = MInf"
| "dadd (Finite a) b = b"

definition dsub :: "double \<Rightarrow> double \<Rightarrow> double" where
  "dsub a b = dadd a (dneg b)"

text \<open>The infinity with the sign of a non-zero real; a NaN for zero.\<close>

definition signed_inf :: "real \<Rightarrow> double" where
  "signed_inf s = (if 0 < s then PInf else if s < 0 then MInf else NaN)"

fun dmul :: "double \<Rightarrow> double \<Rightarrow> double" where
  "dmul NaN b = NaN"
| "dmul a NaN = NaN"
| "dmul (Finite a) (Finite b) = Finite (a * b)"
| "dmul (Finite a) PInf = signed_inf a"
| "dmul (Finite a) MInf = signed_inf (- a)"
| "dmul PInf (Finite b) = signed_inf b"
| "dmul MInf (Finite b) = signed_inf (- b)"
| "dmul PInf PInf = PInf"
| "dmul MInf MInf = PInf"
| "dmul PInf MInf = MInf"
| "dmul MInf PInf = MInf"

text \<open>
  Division: a non-zero finite number over zero is the infinity with the sign of the
  numerator (the zero being read as the positive one), zero over zero and infinity
  over infinity are NaN, and a finite number over an infinity is zero.
\<close>

fun ddiv :: "double \<Rightarrow> double \<Rightarrow> double" where
  "ddiv NaN b = NaN"
| "ddiv a NaN = NaN"
| "ddiv (Finite a) (Finite b) = (if b = 0 then signed_inf a else Finite (a / b))"
| "ddiv (Finite a) b = Finite 0"
| "ddiv PInf (Finite b) = (if b < 0 then MInf else PInf)"
| "ddiv MInf (Finite b) = (if b < 0 then PInf else MInf)"
| "ddiv a b = NaN"

fun dsqrt :: "double \<Rightarrow> double" where
  "dsqrt (Finite a) = (if a < 0 then NaN else Finite (sqrt a))"
| "dsqrt PInf = PInf"
| "dsqrt a = NaN"

subsection \<open>Vectors and matrices\<close>

text \<open>
  \<^verbatim>\<open>Eigen::Vector2d\<close> and \<^verbatim>\<open>Eigen::Vector3d\<close> are tuples, a
  \<^verbatim>\<open>Matrix3d\<close> is the triple of its rows, and a matrix with \<open>N\<close> columns
  (\<^verbatim>\<open>Matrix<double, 3, Cols>\<close>, \<^verbatim>\<open>Matrix<double, 2, Cols>\<close>,
  \<^verbatim>\<open>Matrix3Xd\<close>) is the list of its columns.
\<close>

type_synonym vec2 = "double \<times> double"
type_synonym vec3 = "double \<times> double \<times> double"
type_synonym mat3 = "vec3 \<times> vec3 \<times> vec3"

definition v2x :: "vec2 \<Rightarrow> double" where "v2x u = fst u"
definition v2y :: "vec2 \<Rightarrow> double" where "v2y u = snd u"

definition v3x :: "vec3 \<Rightarrow> double" where "v3x p = fst p"
definition v3y :: "vec3 \<Rightarrow> double" where "v3y p = fst (snd p)"
definition v3z :: "vec3 \<Rightarrow> double" where "v3z p = snd (snd p)"

definition dot3 :: "vec3 \<Rightarrow> vec3 \<Rightarrow> double" where
  "dot3 r p = dadd (dadd (dmul (v3x r) (v3x p)) (dmul (v3y r) (v3y p))) (dmul (v3z r) (v3z p))"

definition mat_vec :: "mat3 \<Rightarrow> vec3 \<Rightarrow> vec3" where
  "mat_vec m p = (dot3 (fst m) p, dot3 (fst (snd m)) p, dot3 (snd (snd m)) p)"

definition norm3 :: "vec3 \<Rightarrow> double" where
  "norm3 p = dsqrt (dot3 p p)"

subsection \<open>The camera\<close>

text \<open>
  The private state of \<^verbatim>\<open>PinholeCam\<close>, field by field (the source's names
  without their trailing underscore). \<^verbatim>\<open>rpg::Pose\<close> is not part of this header:
  it is the type parameter \<open>'pose\<close>. \<^verbatim>\<open>w_\<close> and \<^verbatim>\<open>h_\<close> are C++
  \<^verbatim>\<open>int\<close>s.
\<close>

record 'pose PinholeCam =
  fx :: double
  fy :: double
  cx :: double
  cy :: double
  w :: int
  h :: int
  w_margin :: double
  h_margin :: double
  min_depth :: double
  max_depth :: double
  min_dist :: double
  max_dist :: double
  T_b_c :: 'pose
  K :: mat3
  K_inv :: mat3
  bearings_at_pixels :: "vec3 list"
  pixel_bearing_computed :: bool

text \<open>
  A failed glog \<^verbatim>\<open>CHECK\<close> aborts the process; an Eigen coefficient access out
  of range fails Eigen's assertion. Both are results of the model.
\<close>

datatype fatal = CheckFailed | OutOfRange

text \<open>The default member initialisers of lines 194 to 197 and 203.\<close>

definition default_thresholds :: "('pose, 'z) PinholeCam_scheme \<Rightarrow> bool" where
  "default_thresholds c =
     (min_depth c = Finite (- 1) \<and> max_depth c = PInf \<and>
      min_dist c = Finite (- 1) \<and> max_dist c = PInf)"

text \<open>
  The default \<^verbatim>\<open>z_margin = 0.05\<close> of \<^verbatim>\<open>isDepthValid\<close>: the literal
  denotes the binary64 number nearest to one twentieth, \<open>3602879701896397 / 2^56\<close>.
\<close>

definition z_margin_default :: double where
  "z_margin_default = Finite (3602879701896397 / 2 ^ 56)"

definition isInsideImage :: "('pose, 'z) PinholeCam_scheme \<Rightarrow> vec2 \<Rightarrow> bool" where
  "isInsideImage c u =
     (let x = v2x u; y = v2y u in
      (dgt x (w_margin c) \<and> dlt x (dsub (Finite (of_int (w c))) (w_margin c))) \<and>
      (dgt y (h_margin c) \<and> dlt y (dsub (Finite (of_int (h c))) (h_margin c))))"

definition isDepthValid :: "('pose, 'z) PinholeCam_scheme \<Rightarrow> vec3 \<Rightarrow> double \<Rightarrow> bool" where
  "isDepthValid c pc z_margin =
     (let z = v3z pc in dgt z z_margin \<and> dlt z (max_depth c) \<and> dgt z (min_depth c))"

definition isDistanceValid :: "('pose, 'z) PinholeCam_scheme \<Rightarrow> vec3 \<Rightarrow> bool" where
  "isDistanceValid c pc =
     (let dist = norm3 pc in dlt dist (max_dist c) \<and> dgt dist (min_dist c))"

definition setDepthRange ::
  "double \<Rightarrow> double \<Rightarrow> ('pose, 'z) PinholeCam_scheme \<Rightarrow> fatal + ('pose, 'z) PinholeCam_scheme" where
  "setDepthRange min_z max_z c =
     (if dlt min_z max_z then Inr (c\<lparr>min_depth := min_z, max_depth := max_z\<rparr>)
      else Inl CheckFailed)"

definition setDistRange ::
  "double \<Rightarrow> double \<Rightarrow> ('pose, 'z) PinholeCam_scheme \<Rightarrow> fatal + ('pose, 'z) PinholeCam_scheme" where
  "setDistRange mn mx c =
     (if dlt mn mx then Inr (c\<lparr>min_dist := mn, max_dist := mx\<rparr>)
      else Inl CheckFailed)"

definition setMargin ::
  "double \<Rightarrow> ('pose, 'z) PinholeCam_scheme \<Rightarrow> fatal + ('pose, 'z) PinholeCam_scheme" where
  "setMargin ratio c =
     (if dge ratio (Finite 0)
      then Inr (c\<lparr>w_margin := dmul (Finite (of_int (w c))) ratio,
                  h_margin := dmul (Finite (of_int (h c))) ratio\<rparr>)
      else Inl CheckFailed)"

subsection \<open>Batch projection\<close>

text \<open>
  \<^verbatim>\<open>us_homo.row(i)\<close> reads a row of a matrix stored by columns;
  \<^verbatim>\<open>us->row(i) = r\<close> overwrites one row and keeps the other.
\<close>

definition cwiseQuotient :: "double list \<Rightarrow> double list \<Rightarrow> double list" where
  "cwiseQuotient a b = map2 ddiv a b"

definition set_row0 :: "vec2 list \<Rightarrow> double list \<Rightarrow> vec2 list" where
  "set_row0 us r = map2 (\<lambda>u a. (a, v2y u)) us r"

definition set_row1 :: "vec2 list \<Rightarrow> double list \<Rightarrow> vec2 list" where
  "set_row1 us r = map2 (\<lambda>u a. (v2x u, a)) us r"

text \<open>The loop of lines 230 to 233, one step per column index.\<close>

definition visibility_loop ::
  "('pose, 'z) PinholeCam_scheme \<Rightarrow> vec3 list \<Rightarrow> vec2 list \<Rightarrow> nat \<Rightarrow> bool list \<Rightarrow> bool list" where
  "visibility_loop c pcs us N is_visible =
     fold (\<lambda>i vis. vis[i := isDepthValid c (pcs ! i) z_margin_default \<and> isInsideImage c (us ! i)])
       [0..<N] is_visible"

text \<open>
  \<^verbatim>\<open>project3dBatch\<close> writes through the pointers \<^verbatim>\<open>us\<close> and
  \<^verbatim>\<open>is_visible\<close>: the model takes the two containers as the caller passes
  them and returns them as the call leaves them. The two \<^verbatim>\<open>CHECK_EQ\<close> on
  the sizes are the failures (the pointers of the model are never null, so the two
  \<^verbatim>\<open>CHECK_NOTNULL\<close> pass).
\<close>

definition project3dBatch ::
  "('pose, 'z) PinholeCam_scheme \<Rightarrow> vec3 list \<Rightarrow> vec2 list \<Rightarrow> bool list
    \<Rightarrow> fatal + (vec2 list \<times> bool list)" where
  "project3dBatch c pcs us is_visible =
     (if length pcs \<noteq> length us then Inl CheckFailed
      else if length pcs \<noteq> length is_visible then Inl CheckFailed
      else
        let N = length pcs;
            us_homo = map (mat_vec (K c)) pcs;
            us1 = set_row0 us (cwiseQuotient (map v3x us_homo) (map v3z us_homo));
            us2 = set_row1 us1 (cwiseQuotient (map v3y us_homo) (map v3z us_homo))
        in Inr (us2, visibility_loop c pcs us2 N is_visible))"

text \<open>
  What the matrix operations of lines 225 to 228 and the loop body of line 232 compute for
  one column \<open>p\<close> of \<^verbatim>\<open>pcs\<close>: the pixel after the perspective division,
  and the flag.
\<close>

definition column_pixel :: "('pose, 'z) PinholeCam_scheme \<Rightarrow> vec3 \<Rightarrow> vec2" where
  "column_pixel c p =
     (let u_homo = mat_vec (K c) p
      in (ddiv (v3x u_homo) (v3z u_homo), ddiv (v3y u_homo) (v3z u_homo)))"

definition column_visible :: "('pose, 'z) PinholeCam_scheme \<Rightarrow> vec3 \<Rightarrow> bool" where
  "column_visible c p =
     (isDepthValid c p z_margin_default \<and> isInsideImage c (column_pixel c p))"

text \<open>
  Modelled from the spec: \<^verbatim>\<open>CamMeasurements\<close> is declared in
  \<^verbatim>\<open>vi_utils/vi_measurements.h\<close>, which is not part of the sources. The spec
  describes it as a container populated by
  \<^verbatim>\<open>setMeasurements(pixel_columns, landmark_ids, track_ids)\<close>, a pure sink.
\<close>

record CamMeasurements =
  meas_us :: "vec2 list"
  meas_global_ids :: "32 word list"
  meas_track_ids :: "32 word list"

definition setMeasurements ::
  "vec2 list \<Rightarrow> 32 word list \<Rightarrow> 32 word list \<Rightarrow> CamMeasurements \<Rightarrow> CamMeasurements" where
  "setMeasurements vis_us vis_global_ids vis_track_ids cam_meas =
     cam_meas\<lparr>meas_us := vis_us, meas_global_ids := vis_global_ids,
               meas_track_ids := vis_track_ids\<rparr>"

text \<open>
  One iteration of the loop of lines 280 to 288. The state is the two output
  containers and \<^verbatim>\<open>vis_cnt\<close>; a read of \<^verbatim>\<open>ids\<close> or a write of
  the outputs beyond their size is a failure.
\<close>

definition copy_visible ::
  "vec2 list \<Rightarrow> 32 word list \<Rightarrow> bool list \<Rightarrow> nat
    \<Rightarrow> fatal + (vec2 list \<times> 32 word list \<times> nat)
    \<Rightarrow> fatal + (vec2 list \<times> 32 word list \<times> nat)" where
  "copy_visible us ids is_visible i st =
     (case st of
        Inl e \<Rightarrow> Inl e
      | Inr (vis_us, vis_global_ids, vis_cnt) \<Rightarrow>
          if is_visible ! i then
            (if i < length ids \<and> vis_cnt < length vis_us \<and> vis_cnt < length vis_global_ids
             then Inr (vis_us[vis_cnt := us ! i], vis_global_ids[vis_cnt := ids ! i], vis_cnt + 1)
             else Inl OutOfRange)
          else Inr (vis_us, vis_global_ids, vis_cnt))"

text \<open>
  \<^verbatim>\<open>us\<close> and \<^verbatim>\<open>vis_us\<close> are allocated without initial values in the
  source (every entry is written before it is read); the model fills them with zeros.
  \<^verbatim>\<open>std::vector<bool> is_visible(N)\<close> holds \<open>N\<close> times false,
  \<^verbatim>\<open>vis_global_ids\<close> zeros and \<^verbatim>\<open>vis_track_ids\<close> the value \<open>-1\<close>.
\<close>

definition project3dBatchWithIds ::
  "('pose, 'z) PinholeCam_scheme \<Rightarrow> vec3 list \<Rightarrow> 32 word list \<Rightarrow> CamMeasurements
    \<Rightarrow> fatal + CamMeasurements" where
  "project3dBatchWithIds c pcs ids cam_meas =
     (let N = length pcs;
          us = replicate N (Finite 0, Finite 0);
          is_visible = replicate N False
      in case project3dBatch c pcs us is_visible of
           Inl e \<Rightarrow> Inl e
         | Inr (us', is_visible') \<Rightarrow>
             let n_visible = count_list is_visible' True;
                 vis_us = replicate n_visible (Finite 0, Finite 0);
                 vis_global_ids = replicate n_visible 0;
                 vis_track_ids = replicate n_visible (- 1)
             in case fold (copy_visible us' ids is_visible') [0..<N]
                       (Inr (vis_us, vis_global_ids, 0)) of
                  Inl e \<Rightarrow> Inl e
                | Inr (vis_us', vis_global_ids', vis_cnt) \<Rightarrow>
                    Inr (setMeasurements vis_us' vis_global_ids' vis_track_ids cam_meas))"

text \<open>
  The indices of the columns flagged visible, in increasing order: the visible input
  columns in original column order.
\<close>

definition visible_columns :: "bool list \<Rightarrow> nat list" where
  "visible_columns vis = filter (\<lambda>i. vis ! i) [0..<length vis]"

subsection \<open>Backprojection and the bearing cache\<close>






subsection \<open>Scalar projection\<close>

text \<open>
  Modelled from the spec: the body of \<^verbatim>\<open>project3d\<close> is not in this header
  (line 80 declares it). The spec: it applies \<open>p' = K p\<close>, then divides the first two
  homogeneous coordinates by the third, and returns an explicit invalid signal when the
  point is behind or on the camera plane (z-component at most zero or numerically zero;
  the spec gives no threshold for the latter, and zero itself is at most zero). Which
  other points the function rejects the spec leaves open: the model accepts them, and
  nothing proved below rests on that branch. \<open>None\<close> is the invalid signal (the
  \<^verbatim>\<open>bool\<close> result false), \<open>Some u\<close> the pixel written through
  \<^verbatim>\<open>u\<close> with the result true.
\<close>

definition project3d :: "('pose, 'z) PinholeCam_scheme \<Rightarrow> vec3 \<Rightarrow> vec2 option" where
  "project3d c p_c =
     (if dle (v3z p_c) (Finite 0) then None
      else
        let u_homo = mat_vec (K c) p_c
        in Some (ddiv (v3x u_homo) (v3z u_homo), ddiv (v3y u_homo) (v3z u_homo)))"

subsection \<open>What the threshold mutators leave alone\<close>

definition same_intrinsics ::
  "('pose, 'z) PinholeCam_scheme \<Rightarrow> ('pose, 'z) PinholeCam_scheme \<Rightarrow> bool" where
  "same_intrinsics c c' =
     (fx c' = fx c \<and> fy c' = fy c \<and> cx c' = cx c \<and> cy c' = cy c \<and>
      w c' = w c \<and> h c' = h c \<and> K c' = K c \<and> K_inv c' = K_inv c \<and>
      T_b_c c' = T_b_c c \<and> bearings_at_pixels c' = bearings_at_pixels c \<and>
      pixel_bearing_computed c' = pixel_bearing_computed c \<and>
      PinholeCam.more c' = PinholeCam.more c)"

definition same_margins ::
  "('pose, 'z) PinholeCam_scheme \<Rightarrow> ('pose, 'z) PinholeCam_scheme \<Rightarrow> bool" where
  "same_margins c c' = (w_margin c' = w_margin c \<and> h_margin c' = h_margin c)"

definition same_depth_range ::
  "('pose, 'z) PinholeCam_scheme \<Rightarrow> ('pose, 'z) PinholeCam_scheme \<Rightarrow> bool" where
  "same_depth_range c c' = (min_depth c' = min_depth c \<and> max_depth c' = max_depth c)"

definition same_dist_range ::
  "('pose, 'z) PinholeCam_scheme \<Rightarrow> ('pose, 'z) PinholeCam_scheme \<Rightarrow> bool" where
  "same_dist_range c c' = (min_dist c' = min_dist c \<and> max_dist c' = max_dist c)"

subsection \<open>An example camera\<close>

text \<open>
  The camera of the spec's examples: \<open>fx = fy = 300\<close>, \<open>cx = 320\<close>, \<open>cy = 240\<close>,
  \<open>w = 640\<close>, \<open>h = 480\<close>, no margin, the default thresholds, the intrinsic matrix
  of these parameters and its inverse, and no bearing cache yet.
\<close>

definition example_cam :: "unit PinholeCam" where
  "example_cam =
     \<lparr>fx = Finite 300, fy = Finite 300, cx = Finite 320, cy = Finite 240,
      w = 640, h = 480, w_margin = Finite 0, h_margin = Finite 0,
      min_depth = Finite (- 1), max_depth = PInf,
      min_dist = Finite (- 1), max_dist = PInf,
      T_b_c = (),
      K = ((Finite 300, Finite 0, Finite 320),
           (Finite 0, Finite 300, Finite 240),
           (Finite 0, Finite 0, Finite 1)),
      K_inv = ((Finite (1 / 300), Finite 0, Finite (- (320 / 300))),
               (Finite 0, Finite (1 / 300), Finite (- (240 / 300))),
               (Finite 0, Finite 0, Finite 1)),
      bearings_at_pixels = [],
      pixel_bearing_computed = False\<rparr>"

section \<open>Properties\<close>

subsection \<open>Margins\<close>

text \<open>
  One image axis of extent \<open>n\<close>: a coordinate strictly inside the interval left by the
  margin \<open>n * r1\<close> is strictly inside the one left by a smaller margin \<open>n * r2\<close>.
\<close>

lemma margin_mono_1d:
  assumes "0 \<le> n" "dle (Finite 0) r2" "dlt r2 r1"
    and "dgt x (dmul (Finite (of_int n)) r1)"
    and "dlt x (dsub (Finite (of_int n)) (dmul (Finite (of_int n)) r1))"
  shows "dgt x (dmul (Finite (of_int n)) r2) \<and>
         dlt x (dsub (Finite (of_int n)) (dmul (Finite (of_int n)) r2))"
proof (cases r1)
  case (Finite a1)
  then obtain a2 where r2: "r2 = Finite a2" and a2: "0 \<le> a2" "a2 < a1"
    using assms(2,3) by (cases r2) auto
  have le: "real_of_int n * a2 \<le> real_of_int n * a1"
    using assms(1) a2 by (intro mult_left_mono) auto
  show ?thesis
    using assms(4,5) le unfolding Finite r2
    by (cases x) (auto simp: dgt_def dsub_def)
next
  case PInf
  then show ?thesis
    using assms(1,4,5)
    by (cases x) (auto simp: dgt_def dsub_def signed_inf_def split: if_splits)
next
  case NaN
  then show ?thesis using assms(3) by (cases r2) auto
next
  case MInf
  then show ?thesis using assms(3) by (cases r2) auto
qed

lemma isInsideImage_axes:
  "isInsideImage c u =
     ((dgt (v2x u) (w_margin c) \<and> dlt (v2x u) (dsub (Finite (of_int (w c))) (w_margin c))) \<and>
      (dgt (v2y u) (h_margin c) \<and> dlt (v2y u) (dsub (Finite (of_int (h c))) (h_margin c))))"
  by (simp add: isInsideImage_def Let_def)

subsection \<open>The batch projection, column by column\<close>

lemma set_rows:
  "length r0 = length us \<Longrightarrow> length r1 = length us \<Longrightarrow>
   set_row1 (set_row0 us r0) r1 = zip r0 r1"
  by (induction us arbitrary: r0 r1)
     (auto simp: set_row0_def set_row1_def v2x_def v2y_def length_Suc_conv)

lemma visibility_loop_eq:
  "N \<le> length vis \<Longrightarrow>
   visibility_loop c pcs us N vis =
     map (\<lambda>i. isDepthValid c (pcs ! i) z_margin_default \<and> isInsideImage c (us ! i)) [0..<N]
     @ drop N vis"
proof (induction N)
  case 0
  then show ?case by (simp add: visibility_loop_def)
next
  case (Suc N)
  then have "N < length vis" by simp
  then show ?case
    using Suc.IH
    by (simp add: visibility_loop_def list_update_append Cons_nth_drop_Suc[symmetric]
        upd_conv_take_nth_drop)
qed

lemma project3dBatch_eq:
  assumes "length us = length pcs" "length is_visible = length pcs"
  shows "project3dBatch c pcs us is_visible =
           Inr (map (column_pixel c) pcs, map (column_visible c) pcs)"
proof -
  let ?h = "map (mat_vec (K c)) pcs"
  have px: "set_row1 (set_row0 us (cwiseQuotient (map v3x ?h) (map v3z ?h)))
              (cwiseQuotient (map v3y ?h) (map v3z ?h)) = map (column_pixel c) pcs"
    using assms(1)
    by (subst set_rows)
       (auto simp: cwiseQuotient_def column_pixel_def Let_def zip_map_map intro!: nth_equalityI)
  have "visibility_loop c pcs (map (column_pixel c) pcs) (length pcs) is_visible =
          map (column_visible c) pcs"
    using assms(2)
    by (subst visibility_loop_eq) (auto simp: column_visible_def intro!: nth_equalityI)
  with px show ?thesis
    using assms by (simp add: project3dBatch_def Let_def)
qed

lemma project3dBatch_sizes:
  "length us \<noteq> length pcs \<or> length is_visible \<noteq> length pcs \<Longrightarrow>
   project3dBatch c pcs us is_visible = Inl CheckFailed"
  by (auto simp: project3dBatch_def)

subsection \<open>The compaction loop\<close>

lemma count_list_True:
  "count_list vis True = length (filter (\<lambda>i. vis ! i) [0..<length vis])"
proof (induction vis rule: rev_induct)
  case Nil
  then show ?case by simp
next
  case (snoc x xs)
  have "filter (\<lambda>i. (xs @ [x]) ! i) [0..<length xs] = filter (\<lambda>i. xs ! i) [0..<length xs]"
    by (rule filter_cong) (auto simp: nth_append)
  then show ?case
    using snoc by simp
qed

lemma length_filter_upt_mono:
  assumes "k \<le> n"
  shows "length (filter P [0..<k]) \<le> length (filter P [0..<n])"
proof -
  obtain d where n: "n = k + d"
    using assms le_Suc_ex by blast
  have "[0..<k + d] = [0..<k] @ [k..<k + d]"
    by (rule upt_add_eq_append) simp
  then show ?thesis
    unfolding n by simp
qed

text \<open>
  The invariant of the loop of lines 280 to 288: after the columns below \<open>k\<close>, the
  outputs hold the visible ones among them, in order, in their first
  \<^verbatim>\<open>vis_cnt\<close> slots, and no access was out of range.
\<close>

lemma copy_visible_loop:
  assumes "k \<le> length vis" "length vis \<le> length ids"
    and "n = length (filter (\<lambda>i. vis ! i) [0..<length vis])"
  shows "fold (copy_visible us ids vis) [0..<k] (Inr (replicate n z, replicate n g, 0)) =
     Inr (map ((!) us) (filter (\<lambda>i. vis ! i) [0..<k])
            @ replicate (n - length (filter (\<lambda>i. vis ! i) [0..<k])) z,
          map ((!) ids) (filter (\<lambda>i. vis ! i) [0..<k])
            @ replicate (n - length (filter (\<lambda>i. vis ! i) [0..<k])) g,
          length (filter (\<lambda>i. vis ! i) [0..<k]))"
  using assms(1)
proof (induction k)
  case 0
  then show ?case by simp
next
  case (Suc k)
  let ?sel = "filter (\<lambda>i. vis ! i) [0..<k]"
  let ?sel' = "filter (\<lambda>i. vis ! i) [0..<Suc k]"
  have IH: "fold (copy_visible us ids vis) [0..<k] (Inr (replicate n z, replicate n g, 0)) =
     Inr (map ((!) us) ?sel @ replicate (n - length ?sel) z,
          map ((!) ids) ?sel @ replicate (n - length ?sel) g, length ?sel)"
    using Suc by simp
  have step: "fold (copy_visible us ids vis) [0..<Suc k] (Inr (replicate n z, replicate n g, 0)) =
      copy_visible us ids vis k
        (Inr (map ((!) us) ?sel @ replicate (n - length ?sel) z,
              map ((!) ids) ?sel @ replicate (n - length ?sel) g, length ?sel))"
    by (simp add: IH)
  show ?case
  proof (cases "vis ! k")
    case True
    have "length ?sel' \<le> n"
      unfolding assms(3) using Suc.prems by (rule length_filter_upt_mono)
    with True have lt: "length ?sel < n" by simp
    then obtain m where m: "n - length ?sel = Suc m"
      by (metis Suc_diff_Suc)
    have m': "n - Suc (length ?sel) = m"
      using m by simp
    have kid: "k < length ids"
      using Suc.prems assms(2) by simp
    have "copy_visible us ids vis k
        (Inr (map ((!) us) ?sel @ replicate (n - length ?sel) z,
              map ((!) ids) ?sel @ replicate (n - length ?sel) g, length ?sel)) =
      Inr (map ((!) us) ?sel' @ replicate (n - length ?sel') z,
           map ((!) ids) ?sel' @ replicate (n - length ?sel') g, length ?sel')"
      using True lt kid by (simp add: copy_visible_def m m' list_update_append)
    with step show ?thesis by (rule trans)
  next
    case False
    then have "copy_visible us ids vis k
        (Inr (map ((!) us) ?sel @ replicate (n - length ?sel) z,
              map ((!) ids) ?sel @ replicate (n - length ?sel) g, length ?sel)) =
      Inr (map ((!) us) ?sel' @ replicate (n - length ?sel') z,
           map ((!) ids) ?sel' @ replicate (n - length ?sel') g, length ?sel')"
      by (simp add: copy_visible_def)
    with step show ?thesis by (rule trans)
  qed
qed

subsection \<open>The flat index and the pixel grid\<close>






section \<open>The claims of the specification\<close>

subsection \<open>Depth validity\<close>

text \<open>
  Claim C4, as amended. \<^verbatim>\<open>isDepthValid(p, z_margin)\<close> holds if and only if the
  z coordinate of \<open>p\<close> exceeds \<open>z_margin\<close> and lies strictly between
  \<open>min_depth\<close> and \<open>max_depth\<close>. With the construction defaults
  (\<open>min_depth = -1\<close>, \<open>max_depth = +infinity\<close>) the predicate is
  \<open>z > z_margin\<close>, \<open>z > -1\<close> and \<open>z < +infinity\<close>; it reduces to
  \<open>z > z_margin\<close> for every z other than \<open>+infinity\<close> when \<open>z_margin\<close> is at
  least \<open>-1\<close>, in particular for the default \<open>0.05\<close>.
\<close>

theorem isDepthValid_default_reduces:
  "(isDepthValid c pc z_margin \<longleftrightarrow>
      dgt (v3z pc) z_margin \<and> dgt (v3z pc) (min_depth c) \<and> dlt (v3z pc) (max_depth c)) \<and>
   (default_thresholds c \<longrightarrow>
      (isDepthValid c pc z_margin \<longleftrightarrow>
         dgt (v3z pc) z_margin \<and> dgt (v3z pc) (Finite (- 1)) \<and> dlt (v3z pc) PInf)) \<and>
   (default_thresholds c \<and> dle (Finite (- 1)) z_margin \<and> v3z pc \<noteq> PInf \<longrightarrow>
      (isDepthValid c pc z_margin \<longleftrightarrow> dgt (v3z pc) z_margin)) \<and>
   (default_thresholds c \<and> v3z pc \<noteq> PInf \<longrightarrow>
      (isDepthValid c pc z_margin_default \<longleftrightarrow> dgt (v3z pc) z_margin_default))"
proof -
  have general: "isDepthValid c pc zm \<longleftrightarrow>
      dgt (v3z pc) zm \<and> dgt (v3z pc) (min_depth c) \<and> dlt (v3z pc) (max_depth c)" for zm
    by (auto simp: isDepthValid_def Let_def)
  have reduce: "isDepthValid c pc zm \<longleftrightarrow> dgt (v3z pc) zm"
    if "default_thresholds c" "dle (Finite (- 1)) zm" "v3z pc \<noteq> PInf" for zm
    using that unfolding general
    by (cases "v3z pc"; cases zm) (auto simp: default_thresholds_def dgt_def)
  have "dle (Finite (- 1)) z_margin_default"
    by (simp add: z_margin_default_def)
  with reduce[of z_margin_default] reduce[of z_margin] general[of z_margin]
  show ?thesis
    by (auto simp: default_thresholds_def)
qed

theorem isDepthValid_default_reduces_witness:
  "default_thresholds example_cam \<and>
   dle (Finite (- 1)) (Finite (1 / 2)) \<and>
   v3z (Finite 0, Finite 0, Finite 2) \<noteq> PInf \<and>
   isDepthValid example_cam (Finite 0, Finite 0, Finite 2) (Finite (1 / 2)) \<and>
   dgt (v3z (Finite 0, Finite 0, Finite 2)) (Finite (1 / 2)) \<and>
   isDepthValid example_cam (Finite 0, Finite 0, Finite 2) z_margin_default \<and>
   \<not> isDepthValid example_cam (Finite 0, Finite 0, Finite (- 1)) z_margin_default"
proof -
  have d: "default_thresholds example_cam"
    by (simp add: default_thresholds_def example_cam_def)
  have z: "v3z (Finite 0, Finite 0, Finite 2) = Finite 2"
    "v3z (Finite 0, Finite 0, Finite (- 1)) = Finite (- 1)"
    by (simp_all add: v3z_def)
  show ?thesis
    using d
      isDepthValid_default_reduces[of example_cam "(Finite 0, Finite 0, Finite 2)" "Finite (1 / 2)"]
      isDepthValid_default_reduces[of example_cam "(Finite 0, Finite 0, Finite (- 1))" "Finite (1 / 2)"]
    by (simp add: z dgt_def z_margin_default_def example_cam_def)
qed

text \<open>
  Where claim C4 fails as stated: with the default thresholds, a caller's
  \<open>z_margin = -2\<close> and \<open>z = -1.5\<close> give \<open>z > z_margin\<close> but an invalid depth
  (the minimum \<open>-1\<close> is not vacuous), and \<open>z = +infinity\<close> exceeds the default
  margin but is not below \<open>max_depth = +infinity\<close>.
\<close>

theorem isDepthValid_default_counterexample:
  "default_thresholds example_cam \<and>
   dgt (v3z (Finite 0, Finite 0, Finite (- (3 / 2)))) (Finite (- 2)) \<and>
   \<not> isDepthValid example_cam (Finite 0, Finite 0, Finite (- (3 / 2))) (Finite (- 2)) \<and>
   dgt (v3z (Finite 0, Finite 0, PInf)) z_margin_default \<and>
   \<not> isDepthValid example_cam (Finite 0, Finite 0, PInf) z_margin_default"
  by (simp add: default_thresholds_def example_cam_def isDepthValid_def dgt_def v3z_def
      z_margin_default_def)

subsection \<open>The range setters\<close>

text \<open>
  Claim C8, as amended. \<^verbatim>\<open>setDepthRange(min, max)\<close> and
  \<^verbatim>\<open>setDistRange(min, max)\<close> terminate fatally if and only if \<open>min < max\<close>
  does not hold, that is when \<open>min \<ge> max\<close> or one of the two is a NaN; when
  \<open>min < max\<close> they set their pair of thresholds to exactly the given values.
\<close>

theorem range_setters_fatal_iff:
  "(setDepthRange mn mx c = Inl CheckFailed \<longleftrightarrow> \<not> dlt mn mx) \<and>
   (setDistRange mn mx c = Inl CheckFailed \<longleftrightarrow> \<not> dlt mn mx) \<and>
   (\<not> dlt mn mx \<longleftrightarrow> dge mn mx \<or> mn = NaN \<or> mx = NaN) \<and>
   (dlt mn mx \<longrightarrow>
      setDepthRange mn mx c = Inr (c\<lparr>min_depth := mn, max_depth := mx\<rparr>) \<and>
      setDistRange mn mx c = Inr (c\<lparr>min_dist := mn, max_dist := mx\<rparr>))"
proof -
  have "\<not> dlt mn mx \<longleftrightarrow> dge mn mx \<or> mn = NaN \<or> mx = NaN"
    by (cases mn; cases mx) (auto simp: dge_def)
  moreover have "setDepthRange mn mx c = Inl CheckFailed \<longleftrightarrow> \<not> dlt mn mx"
    by (simp add: setDepthRange_def)
  moreover have "setDistRange mn mx c = Inl CheckFailed \<longleftrightarrow> \<not> dlt mn mx"
    by (simp add: setDistRange_def)
  moreover have "setDepthRange mn mx c = Inr (c\<lparr>min_depth := mn, max_depth := mx\<rparr>)"
    if "dlt mn mx"
    using that by (simp add: setDepthRange_def)
  moreover have "setDistRange mn mx c = Inr (c\<lparr>min_dist := mn, max_dist := mx\<rparr>)"
    if "dlt mn mx"
    using that by (simp add: setDistRange_def)
  ultimately show ?thesis
    by blast
qed

theorem range_setters_fatal_iff_witness:
  "dlt (Finite 1) (Finite 10) \<and>
   setDepthRange (Finite 1) (Finite 10) example_cam =
     Inr (example_cam\<lparr>min_depth := Finite 1, max_depth := Finite 10\<rparr>) \<and>
   setDistRange (Finite 1) (Finite 10) example_cam =
     Inr (example_cam\<lparr>min_dist := Finite 1, max_dist := Finite 10\<rparr>) \<and>
   dge (Finite 3) (Finite 3) \<and>
   setDepthRange (Finite 3) (Finite 3) example_cam = Inl CheckFailed \<and>
   setDistRange (Finite 3) (Finite 3) example_cam = Inl CheckFailed"
  using range_setters_fatal_iff[of "Finite 1" "Finite 10" example_cam]
    range_setters_fatal_iff[of "Finite 3" "Finite 3" example_cam]
  by (simp add: dge_def)

text \<open>
  Where claim C8 fails as stated: \<^verbatim>\<open>CHECK_LT(NaN, 1.0)\<close> fails, so the setters
  terminate fatally, though \<open>NaN \<ge> 1.0\<close> is false.
\<close>

theorem range_setters_counterexample:
  "setDepthRange NaN (Finite 1) example_cam = Inl CheckFailed \<and>
   setDistRange NaN (Finite 1) example_cam = Inl CheckFailed \<and>
   \<not> dge NaN (Finite 1)"
  by (simp add: setDepthRange_def setDistRange_def dge_def)

subsection \<open>What the mutators change\<close>

text \<open>
  Claim C10. Each threshold mutator changes only its own pair of fields:
  \<^verbatim>\<open>setDepthRange\<close> writes \<open>min_depth\<close> and \<open>max_depth\<close>,
  \<^verbatim>\<open>setDistRange\<close> writes \<open>min_dist\<close> and \<open>max_dist\<close>, and
  \<^verbatim>\<open>setMargin\<close> writes \<open>w_margin\<close> and \<open>h_margin\<close>; the intrinsics, \<open>K\<close>,
  its inverse, the pose and the bearing cache are the same after all three.
\<close>

theorem threshold_mutators_frame:
  "(setDepthRange mn mx c = Inr c1 \<longrightarrow>
      same_intrinsics c c1 \<and> same_margins c c1 \<and> same_dist_range c c1 \<and>
      min_depth c1 = mn \<and> max_depth c1 = mx) \<and>
   (setDistRange mn mx c = Inr c2 \<longrightarrow>
      same_intrinsics c c2 \<and> same_margins c c2 \<and> same_depth_range c c2 \<and>
      min_dist c2 = mn \<and> max_dist c2 = mx) \<and>
   (setMargin ratio c = Inr c3 \<longrightarrow>
      same_intrinsics c c3 \<and> same_depth_range c c3 \<and> same_dist_range c c3 \<and>
      w_margin c3 = dmul (Finite (of_int (w c))) ratio \<and>
      h_margin c3 = dmul (Finite (of_int (h c))) ratio)"
  by (auto simp: setDepthRange_def setDistRange_def setMargin_def same_intrinsics_def
      same_margins_def same_depth_range_def same_dist_range_def split: if_splits)

theorem threshold_mutators_frame_witness:
  "setDepthRange (Finite 1) (Finite 10) example_cam =
     Inr (example_cam\<lparr>min_depth := Finite 1, max_depth := Finite 10\<rparr>) \<and>
   setDistRange (Finite 1) (Finite 10) example_cam =
     Inr (example_cam\<lparr>min_dist := Finite 1, max_dist := Finite 10\<rparr>) \<and>
   setMargin (Finite (1 / 10)) example_cam =
     Inr (example_cam\<lparr>w_margin := Finite 64, h_margin := Finite 48\<rparr>) \<and>
   same_intrinsics example_cam (example_cam\<lparr>min_depth := Finite 1, max_depth := Finite 10\<rparr>) \<and>
   same_margins example_cam (example_cam\<lparr>min_depth := Finite 1, max_depth := Finite 10\<rparr>) \<and>
   same_intrinsics example_cam (example_cam\<lparr>min_dist := Finite 1, max_dist := Finite 10\<rparr>) \<and>
   same_depth_range example_cam (example_cam\<lparr>min_dist := Finite 1, max_dist := Finite 10\<rparr>) \<and>
   same_intrinsics example_cam (example_cam\<lparr>w_margin := Finite 64, h_margin := Finite 48\<rparr>) \<and>
   same_dist_range example_cam (example_cam\<lparr>w_margin := Finite 64, h_margin := Finite 48\<rparr>)"
proof -
  have a: "setDepthRange (Finite 1) (Finite 10) example_cam =
     Inr (example_cam\<lparr>min_depth := Finite 1, max_depth := Finite 10\<rparr>)"
    by (simp add: setDepthRange_def)
  have b: "setDistRange (Finite 1) (Finite 10) example_cam =
     Inr (example_cam\<lparr>min_dist := Finite 1, max_dist := Finite 10\<rparr>)"
    by (simp add: setDistRange_def)
  have c: "setMargin (Finite (1 / 10)) example_cam =
     Inr (example_cam\<lparr>w_margin := Finite 64, h_margin := Finite 48\<rparr>)"
    by (simp add: setMargin_def dge_def example_cam_def)
  show ?thesis
    using a b c
      threshold_mutators_frame[of "Finite 1" "Finite 10" example_cam
        "example_cam\<lparr>min_depth := Finite 1, max_depth := Finite 10\<rparr>"
        "example_cam\<lparr>min_dist := Finite 1, max_dist := Finite 10\<rparr>"
        "Finite (1 / 10)"
        "example_cam\<lparr>w_margin := Finite 64, h_margin := Finite 48\<rparr>"]
    by simp
qed

subsection \<open>The visibility flags of a batch\<close>

text \<open>
  Claim C3. In \<^verbatim>\<open>project3dBatch\<close> (called with output containers of the size
  of the batch) the visibility flag of every column \<open>i\<close> is
  \<open>isDepthValid(point i) \<and> isInsideImage(pixel i)\<close>, where pixel \<open>i\<close> and the flag
  are functions of column \<open>i\<close> alone; the distance range is not consulted: the
  result is the same for every setting of \<open>min_dist\<close> and \<open>max_dist\<close>.
\<close>

theorem project3dBatch_visibility_flags:
  assumes "length us = length pcs" and "length is_visible = length pcs"
  shows "\<exists>us' vis'.
           project3dBatch c pcs us is_visible = Inr (us', vis') \<and>
           length us' = length pcs \<and> length vis' = length pcs \<and>
           (\<forall>i<length pcs.
              vis' ! i = (isDepthValid c (pcs ! i) z_margin_default \<and> isInsideImage c (us' ! i))) \<and>
           (\<forall>i<length pcs.
              us' ! i = column_pixel c (pcs ! i) \<and> vis' ! i = column_visible c (pcs ! i)) \<and>
           (\<forall>mn mx.
              project3dBatch (c\<lparr>min_dist := mn, max_dist := mx\<rparr>) pcs us is_visible =
                Inr (us', vis'))"
proof -
  have indep: "column_pixel (c\<lparr>min_dist := mn, max_dist := mx\<rparr>) = column_pixel c"
    "column_visible (c\<lparr>min_dist := mn, max_dist := mx\<rparr>) = column_visible c" for mn mx
    by (simp_all add: fun_eq_iff column_visible_def column_pixel_def isDepthValid_def
        isInsideImage_def)
  show ?thesis
    unfolding project3dBatch_eq[OF assms]
    by (simp add: indep column_visible_def)
qed

theorem project3dBatch_visibility_flags_witness:
  "project3dBatch (example_cam\<lparr>min_dist := Finite 0, max_dist := Finite 1\<rparr>)
     [(Finite 0, Finite 0, Finite 2), (Finite 0, Finite 0, Finite (- 1))]
     [(Finite 0, Finite 0), (Finite 0, Finite 0)] [False, False] =
   Inr ([(Finite 320, Finite 240), (Finite 320, Finite 240)], [True, False]) \<and>
   project3dBatch example_cam
     [(Finite 0, Finite 0, Finite 2), (Finite 0, Finite 0, Finite (- 1))]
     [(Finite 0, Finite 0), (Finite 0, Finite 0)] [False, False] =
   Inr ([(Finite 320, Finite 240), (Finite 320, Finite 240)], [True, False]) \<and>
   \<not> isDistanceValid (example_cam\<lparr>min_dist := Finite 0, max_dist := Finite 1\<rparr>)
     (Finite 0, Finite 0, Finite 2)"
proof -
  have e: "project3dBatch example_cam
     [(Finite 0, Finite 0, Finite 2), (Finite 0, Finite 0, Finite (- 1))]
     [(Finite 0, Finite 0), (Finite 0, Finite 0)] [False, False] =
   Inr ([(Finite 320, Finite 240), (Finite 320, Finite 240)], [True, False])"
    by (simp add: project3dBatch_eq column_pixel_def column_visible_def isDepthValid_def
        isInsideImage_def mat_vec_def dot3_def v3x_def v3y_def v3z_def v2x_def v2y_def
        dgt_def dsub_def z_margin_default_def example_cam_def)
  have d: "\<not> isDistanceValid (example_cam\<lparr>min_dist := Finite 0, max_dist := Finite 1\<rparr>)
     (Finite 0, Finite 0, Finite 2)"
    by (simp add: isDistanceValid_def norm3_def dot3_def v3x_def v3y_def v3z_def)
  show ?thesis
    using e d
      project3dBatch_visibility_flags[of "[(Finite 0, Finite 0), (Finite 0, Finite 0)]"
        "[(Finite 0, Finite 0, Finite 2), (Finite 0, Finite 0, Finite (- 1))]"
        "[False, False]" example_cam]
    by simp
qed

text \<open>
  Claim C9. A column of \<^verbatim>\<open>project3dBatch\<close> whose z coordinate is at most the
  depth epsilon is never flagged visible, whatever pixel the unguarded division wrote
  for it (for \<open>z = 0\<close> a non-finite one, which is still stored in the output).
\<close>

theorem degenerate_column_never_visible:
  assumes "length us = length pcs" and "length is_visible = length pcs"
    and "i < length pcs" and "dle (v3z (pcs ! i)) z_margin_default"
  shows "\<exists>us' vis'.
           project3dBatch c pcs us is_visible = Inr (us', vis') \<and>
           length us' = length pcs \<and> length vis' = length pcs \<and>
           \<not> vis' ! i \<and> us' ! i = column_pixel c (pcs ! i)"
proof -
  have "\<not> dgt (v3z (pcs ! i)) z_margin_default"
    using assms(4) by (cases "v3z (pcs ! i)") (auto simp: dgt_def z_margin_default_def)
  then have "\<not> column_visible c (pcs ! i)"
    by (simp add: column_visible_def isDepthValid_def)
  then show ?thesis
    unfolding project3dBatch_eq[OF assms(1,2)] using assms(3) by simp
qed

theorem degenerate_column_never_visible_witness:
  "dle (v3z (Finite 1, Finite 0, Finite 0)) z_margin_default \<and>
   project3dBatch example_cam [(Finite 1, Finite 0, Finite 0)] [(Finite 0, Finite 0)] [True] =
     Inr ([(PInf, NaN)], [False])"
proof -
  have z: "dle (v3z (Finite 1, Finite 0, Finite 0)) z_margin_default"
    by (simp add: v3z_def z_margin_default_def)
  have p: "column_pixel example_cam (Finite 1, Finite 0, Finite 0) = (PInf, NaN)"
    by (simp add: column_pixel_def mat_vec_def dot3_def v3x_def v3y_def v3z_def
        signed_inf_def example_cam_def)
  show ?thesis
    using z p
      degenerate_column_never_visible[of "[(Finite 0, Finite 0)]"
        "[(Finite 1, Finite 0, Finite 0)]" "[True]" 0 example_cam]
    by (auto simp: length_Suc_conv)
qed

subsection \<open>Compaction by visibility\<close>

text \<open>
  Claim C1. For a batch of \<open>N\<close> camera-frame points with \<open>N\<close> landmark ids,
  \<^verbatim>\<open>project3dBatchWithIds\<close> stores a measurement set with as many entries as
  the visibility vector of \<^verbatim>\<open>project3dBatch\<close> has true entries; entry \<open>j\<close>
  holds the pixel and the landmark id of the \<open>j\<close>-th visible column, in the
  original column order, and every track id is \<open>-1\<close>.
\<close>

theorem project3dBatchWithIds_compacts:
  assumes "length ids = length pcs"
  shows "\<exists>us vis r.
           (\<forall>us0 vis0. length us0 = length pcs \<and> length vis0 = length pcs \<longrightarrow>
              project3dBatch c pcs us0 vis0 = Inr (us, vis)) \<and>
           project3dBatchWithIds c pcs ids cam_meas = Inr r \<and>
           length (meas_us r) = count_list vis True \<and>
           length (meas_global_ids r) = count_list vis True \<and>
           meas_us r = map ((!) us) (visible_columns vis) \<and>
           meas_global_ids r = map ((!) ids) (visible_columns vis) \<and>
           meas_track_ids r = replicate (count_list vis True) (- 1)"
proof -
  define us where "us = map (column_pixel c) pcs"
  define vis where "vis = map (column_visible c) pcs"
  define n where "n = count_list vis True"
  have batch: "project3dBatch c pcs us0 vis0 = Inr (us, vis)"
    if "length us0 = length pcs" "length vis0 = length pcs" for us0 vis0
    using that by (simp add: project3dBatch_eq us_def vis_def)
  have len: "length vis = length pcs"
    by (simp add: vis_def)
  have n: "n = length (filter (\<lambda>i. vis ! i) [0..<length vis])"
    unfolding n_def by (rule count_list_True)
  have sel: "visible_columns vis = filter (\<lambda>i. vis ! i) [0..<length pcs]"
    by (simp add: visible_columns_def len)
  have loop: "fold (copy_visible us ids vis) [0..<length pcs]
        (Inr (replicate n (Finite 0, Finite 0), replicate n 0, 0)) =
      Inr (map ((!) us) (visible_columns vis), map ((!) ids) (visible_columns vis), n)"
    using copy_visible_loop[of "length pcs" vis ids n us "(Finite 0, Finite 0)" 0] assms n
    by (simp add: len sel)
  have "project3dBatchWithIds c pcs ids cam_meas =
      Inr (setMeasurements (map ((!) us) (visible_columns vis))
             (map ((!) ids) (visible_columns vis)) (replicate n (- 1)) cam_meas)"
    by (simp add: project3dBatchWithIds_def batch Let_def loop n_def[symmetric])
  moreover have "length (visible_columns vis) = n"
    using n by (simp add: visible_columns_def)
  ultimately show ?thesis
    using batch by (auto simp: setMeasurements_def n_def)
qed

theorem project3dBatchWithIds_compacts_witness:
  "project3dBatch example_cam
     [(Finite 0, Finite 0, Finite 2), (Finite 0, Finite 0, Finite (- 1)),
      (Finite 1, Finite 0, Finite 3)]
     [(Finite 0, Finite 0), (Finite 0, Finite 0), (Finite 0, Finite 0)]
     [False, False, False] =
   Inr ([(Finite 320, Finite 240), (Finite 320, Finite 240), (Finite 420, Finite 240)],
        [True, False, True]) \<and>
   project3dBatchWithIds example_cam
     [(Finite 0, Finite 0, Finite 2), (Finite 0, Finite 0, Finite (- 1)),
      (Finite 1, Finite 0, Finite 3)]
     [7, 8, 9] \<lparr>meas_us = [], meas_global_ids = [], meas_track_ids = []\<rparr> =
   Inr \<lparr>meas_us = [(Finite 320, Finite 240), (Finite 420, Finite 240)],
        meas_global_ids = [7, 9], meas_track_ids = [- 1, - 1]\<rparr>"
proof -
  let ?pcs = "[(Finite 0, Finite 0, Finite 2), (Finite 0, Finite 0, Finite (- 1)),
      (Finite 1, Finite 0, Finite 3)]"
  let ?us0 = "[(Finite 0, Finite 0), (Finite 0, Finite 0), (Finite 0, Finite 0)]"
  have e: "project3dBatch example_cam ?pcs ?us0 [False, False, False] =
      Inr ([(Finite 320, Finite 240), (Finite 320, Finite 240), (Finite 420, Finite 240)],
           [True, False, True])"
    by (simp add: project3dBatch_eq column_pixel_def column_visible_def isDepthValid_def
        isInsideImage_def mat_vec_def dot3_def v3x_def v3y_def v3z_def v2x_def v2y_def
        dgt_def dsub_def z_margin_default_def example_cam_def)
  have v: "visible_columns [True, False, True] = [0, 2]"
    by (simp add: visible_columns_def upt_rec)
  obtain us vis r where
    b: "\<forall>us0 vis0. length us0 = length ?pcs \<and> length vis0 = length ?pcs \<longrightarrow>
          project3dBatch example_cam ?pcs us0 vis0 = Inr (us, vis)"
    and r: "project3dBatchWithIds example_cam ?pcs [7, 8, 9]
          \<lparr>meas_us = [], meas_global_ids = [], meas_track_ids = []\<rparr> = Inr r"
      "meas_us r = map ((!) us) (visible_columns vis)"
      "meas_global_ids r = map ((!) [7, 8, 9]) (visible_columns vis)"
      "meas_track_ids r = replicate (count_list vis True) (- 1)"
    using project3dBatchWithIds_compacts[of "[7, 8, 9]" ?pcs example_cam
        "\<lparr>meas_us = [], meas_global_ids = [], meas_track_ids = []\<rparr>"]
    by auto
  have "project3dBatch example_cam ?pcs ?us0 [False, False, False] = Inr (us, vis)"
    using b by simp
  with e have uv: "us = [(Finite 320, Finite 240), (Finite 320, Finite 240), (Finite 420, Finite 240)]"
    "vis = [True, False, True]"
    by simp_all
  have "r = \<lparr>meas_us = [(Finite 320, Finite 240), (Finite 420, Finite 240)],
        meas_global_ids = [7, 9], meas_track_ids = [- 1, - 1]\<rparr>"
    using r(2-4) unfolding uv v by (cases r) (simp add: numeral_2_eq_2)
  with e r(1) show ?thesis
    by simp
qed

subsection \<open>Margins and visibility\<close>

text \<open>
  Claim C6. For an image of non-negative width and height, every pixel \<open>u\<close> and
  margin ratios \<open>0 \<le> r2 < r1\<close>: if \<^verbatim>\<open>isInsideImage(u)\<close> holds after
  \<^verbatim>\<open>setMargin(r1)\<close>, it holds after \<^verbatim>\<open>setMargin(r2)\<close>; and a pixel
  rejected at the ratio \<open>r2\<close> is still rejected after the ratio is increased to
  \<open>r1\<close>.
\<close>

theorem margin_visibility_monotone:
  assumes "0 \<le> w c" and "0 \<le> h c" and "dle (Finite 0) r2" and "dlt r2 r1"
  shows "\<exists>c1 c2.
           setMargin r1 c = Inr c1 \<and> setMargin r2 c1 = Inr c2 \<and>
           setMargin r2 c = Inr c2 \<and> setMargin r1 c2 = Inr c1 \<and>
           (isInsideImage c1 u \<longrightarrow> isInsideImage c2 u) \<and>
           (\<not> isInsideImage c2 u \<longrightarrow> \<not> isInsideImage c1 u)"
proof -
  have ge2: "dge r2 (Finite 0)"
    using assms(3) by (simp add: dge_def)
  have ge1: "dge r1 (Finite 0)"
    using assms(3,4) by (cases r1; cases r2) (auto simp: dge_def)
  define c1 where "c1 = c\<lparr>w_margin := dmul (Finite (of_int (w c))) r1,
                         h_margin := dmul (Finite (of_int (h c))) r1\<rparr>"
  define c2 where "c2 = c\<lparr>w_margin := dmul (Finite (of_int (w c))) r2,
                         h_margin := dmul (Finite (of_int (h c))) r2\<rparr>"
  have s: "setMargin r1 c = Inr c1" "setMargin r2 c1 = Inr c2"
    "setMargin r2 c = Inr c2" "setMargin r1 c2 = Inr c1"
    using ge1 ge2 by (simp_all add: setMargin_def c1_def c2_def)
  have "isInsideImage c2 u" if "isInsideImage c1 u"
    using that margin_mono_1d[OF assms(1) assms(3) assms(4), of "v2x u"]
      margin_mono_1d[OF assms(2) assms(3) assms(4), of "v2y u"]
    by (simp add: isInsideImage_axes c1_def c2_def)
  with s show ?thesis
    by blast
qed

theorem margin_visibility_monotone_witness:
  "0 \<le> w example_cam \<and> 0 \<le> h example_cam \<and>
   dle (Finite 0) (Finite (1 / 8)) \<and> dlt (Finite (1 / 8)) (Finite (1 / 4)) \<and>
   setMargin (Finite (1 / 4)) example_cam =
     Inr (example_cam\<lparr>w_margin := Finite 160, h_margin := Finite 120\<rparr>) \<and>
   setMargin (Finite (1 / 8)) (example_cam\<lparr>w_margin := Finite 160, h_margin := Finite 120\<rparr>) =
     Inr (example_cam\<lparr>w_margin := Finite 80, h_margin := Finite 60\<rparr>) \<and>
   isInsideImage (example_cam\<lparr>w_margin := Finite 160, h_margin := Finite 120\<rparr>)
     (Finite 200, Finite 240) \<and>
   isInsideImage (example_cam\<lparr>w_margin := Finite 80, h_margin := Finite 60\<rparr>)
     (Finite 200, Finite 240)"
proof -
  have wh: "0 \<le> w example_cam" "0 \<le> h example_cam"
    by (simp_all add: example_cam_def)
  have r: "dle (Finite 0) (Finite (1 / 8))" "dlt (Finite (1 / 8)) (Finite (1 / 4))"
    by simp_all
  have s1: "setMargin (Finite (1 / 4)) example_cam =
     Inr (example_cam\<lparr>w_margin := Finite 160, h_margin := Finite 120\<rparr>)"
    by (simp add: setMargin_def dge_def example_cam_def)
  have s2: "setMargin (Finite (1 / 8)) (example_cam\<lparr>w_margin := Finite 160, h_margin := Finite 120\<rparr>) =
     Inr (example_cam\<lparr>w_margin := Finite 80, h_margin := Finite 60\<rparr>)"
    by (simp add: setMargin_def dge_def example_cam_def)
  have i: "isInsideImage (example_cam\<lparr>w_margin := Finite 160, h_margin := Finite 120\<rparr>)
     (Finite 200, Finite 240)"
    by (simp add: isInsideImage_def v2x_def v2y_def dgt_def dsub_def example_cam_def)
  show ?thesis
    using wh r s1 s2 i
      margin_visibility_monotone[OF wh r, of "(Finite 200, Finite 240)"]
    by auto
qed

subsection \<open>The bearing cache\<close>



subsection \<open>Scalar projection\<close>

text \<open>
  Claim C5. For every camera-frame point whose z coordinate is at most zero,
  \<^verbatim>\<open>project3d\<close> returns the invalid signal as an ordinary result; in a batch such
  a point does not fail the call: \<^verbatim>\<open>project3dBatch\<close> returns, the flag of that
  column is false, and every column still has its own flag.
\<close>

theorem project3d_behind_camera_invalid:
  "(dle (v3z p) (Finite 0) \<longrightarrow> project3d c p = None) \<and>
   (length us = length pcs \<and> length is_visible = length pcs \<and> i < length pcs \<and>
    dle (v3z (pcs ! i)) (Finite 0) \<longrightarrow>
      (\<exists>us' vis'.
         project3dBatch c pcs us is_visible = Inr (us', vis') \<and>
         length vis' = length pcs \<and> \<not> vis' ! i \<and> project3d c (pcs ! i) = None \<and>
         (\<forall>j<length pcs. vis' ! j = column_visible c (pcs ! j))))"
proof -
  have "\<not> column_visible c (pcs ! i)" if "dle (v3z (pcs ! i)) (Finite 0)"
    using that
    by (cases "v3z (pcs ! i)")
       (auto simp: column_visible_def isDepthValid_def dgt_def z_margin_default_def)
  then show ?thesis
    by (auto simp: project3d_def project3dBatch_eq)
qed

theorem project3d_behind_camera_invalid_witness:
  "dle (v3z (Finite 0, Finite 0, Finite (- 1))) (Finite 0) \<and>
   project3d example_cam (Finite 0, Finite 0, Finite (- 1)) = None \<and>
   project3dBatch example_cam
     [(Finite 0, Finite 0, Finite 2), (Finite 0, Finite 0, Finite (- 1))]
     [(Finite 0, Finite 0), (Finite 0, Finite 0)] [False, False] =
   Inr ([(Finite 320, Finite 240), (Finite 320, Finite 240)], [True, False])"
proof -
  have z: "dle (v3z (Finite 0, Finite 0, Finite (- 1))) (Finite 0)"
    by (simp add: v3z_def)
  have e: "project3dBatch example_cam
     [(Finite 0, Finite 0, Finite 2), (Finite 0, Finite 0, Finite (- 1))]
     [(Finite 0, Finite 0), (Finite 0, Finite 0)] [False, False] =
   Inr ([(Finite 320, Finite 240), (Finite 320, Finite 240)], [True, False])"
    by (simp add: project3dBatch_eq column_pixel_def column_visible_def isDepthValid_def
        isInsideImage_def mat_vec_def dot3_def v3x_def v3y_def v3z_def v2x_def v2y_def
        dgt_def dsub_def z_margin_default_def example_cam_def)
  show ?thesis
    using z e
      project3d_behind_camera_invalid[of "(Finite 0, Finite 0, Finite (- 1))" example_cam
        "[(Finite 0, Finite 0), (Finite 0, Finite 0)]"
        "[(Finite 0, Finite 0, Finite 2), (Finite 0, Finite 0, Finite (- 1))]"
        "[False, False]" 1]
    by simp
qed

end
